theory Spec2Isabelle
  imports Complex_Main "HOL-Library.Char_ord" "HOL-Library.List_Lexorder" "HOL-Library.Sublist"
begin

section \<open>The data the two example apps work on\<close>

text \<open>
  Both apps filter a pandas dataframe by the values of slider and checkbox-group
  inputs. A column is numeric (\<^verbatim>\<open>pd.api.types.is_numeric_dtype\<close> holds) or holds strings.
  A numeric value is a real number or the missing value NaN; rounding and infinities of
  float64 are left out. String columns hold strings (the apps call \<^verbatim>\<open>dropna()\<close> before
  any filter is built, so a missing string never reaches them).
\<close>

datatype float64 = F real | NaN

datatype series = Numeric "float64 list" | Object "string list"

text \<open>
  A dataframe: the row labels (\<^verbatim>\<open>df.index\<close>) and the named columns in their order.
  \<^verbatim>\<open>df[col]\<close> is \<open>getitem\<close>; a missing column raises KeyError.
\<close>

record dataframe =
  index :: "nat list"
  cols :: "(string \<times> series) list"

datatype error =
    KeyError
  | TypeError
  | ValueError \<comment> \<open>the \<^verbatim>\<open>raise ValueError\<close> of the else branch of get_filtered_data\<close>
  | UnpackError \<comment> \<open>\<^verbatim>\<open>min_val, max_val = ...\<close> on a tuple that has not two items\<close>
  | SilentException \<comment> \<open>reading an input that has no value\<close>

fun series_len :: "series \<Rightarrow> nat" where
  "series_len (Numeric xs) = length xs"
| "series_len (Object xs) = length xs"

definition wf_frame :: "dataframe \<Rightarrow> bool" where
  "wf_frame df = list_all (\<lambda>(n, s). series_len s = length (index df)) (cols df)"

definition getitem :: "dataframe \<Rightarrow> string \<Rightarrow> series option" where
  "getitem df col = map_of (cols df) col"

definition columns_of :: "dataframe \<Rightarrow> string list" where
  "columns_of df = map fst (cols df)"

fun is_numeric_dtype :: "series \<Rightarrow> bool" where
  "is_numeric_dtype (Numeric xs) = True"
| "is_numeric_dtype (Object xs) = False"

text \<open>\<^verbatim>\<open>Series.min()\<close> and \<^verbatim>\<open>Series.max()\<close> skip NaN; with no value left they are NaN.\<close>

fun finite_values :: "float64 list \<Rightarrow> real list" where
  "finite_values [] = []"
| "finite_values (F x # xs) = x # finite_values xs"
| "finite_values (NaN # xs) = finite_values xs"

definition series_min :: "float64 list \<Rightarrow> float64" where
  "series_min xs = (case finite_values xs of [] \<Rightarrow> NaN | y # ys \<Rightarrow> F (fold min ys y))"

definition series_max :: "float64 list \<Rightarrow> float64" where
  "series_max xs = (case finite_values xs of [] \<Rightarrow> NaN | y # ys \<Rightarrow> F (fold max ys y))"

text \<open>\<^verbatim>\<open>Series.unique()\<close>: the distinct values in order of first appearance.\<close>

definition unique :: "string list \<Rightarrow> string list" where
  "unique xs = rev (remdups (rev xs))"

text \<open>Comparisons of float64: every comparison with NaN is false.\<close>

fun ge64 :: "float64 \<Rightarrow> float64 \<Rightarrow> bool" where
  "ge64 (F x) (F y) = (y \<le> x)"
| "ge64 _ _ = False"

fun le64 :: "float64 \<Rightarrow> float64 \<Rightarrow> bool" where
  "le64 (F x) (F y) = (x \<le> y)"
| "le64 _ _ = False"

text \<open>
  A slider with two handles holds a pair of numbers, a checkbox group a tuple of
  strings. \<open>input\<close> maps the id of an input to its current value.
\<close>

datatype input_value = Range float64 float64 | Selected "string list"

type_synonym inputs = "string \<Rightarrow> input_value option"

datatype scalar = Num float64 | Str string

text \<open>\<^verbatim>\<open>min_val, max_val = value\<close>: the tuple must have exactly two items.\<close>

fun unpack2 :: "input_value \<Rightarrow> error + scalar \<times> scalar" where
  "unpack2 (Range a b) = Inr (Num a, Num b)"
| "unpack2 (Selected [a, b]) = Inr (Str a, Str b)"
| "unpack2 (Selected xs) = Inl UnpackError"

text \<open>
  \<^verbatim>\<open>series >= v\<close> and \<^verbatim>\<open>series <= v\<close>, element by element. Strings compare
  lexicographically. An ordering comparison between numbers and strings is a TypeError.
\<close>

fun series_ge :: "series \<Rightarrow> scalar \<Rightarrow> error + bool list" where
  "series_ge (Numeric xs) (Num v) = Inr (map (\<lambda>x. ge64 x v) xs)"
| "series_ge (Object xs) (Str v) = Inr (map (\<lambda>x. v \<le> x) xs)"
| "series_ge _ _ = Inl TypeError"

fun series_le :: "series \<Rightarrow> scalar \<Rightarrow> error + bool list" where
  "series_le (Numeric xs) (Num v) = Inr (map (\<lambda>x. le64 x v) xs)"
| "series_le (Object xs) (Str v) = Inr (map (\<lambda>x. x \<le> v) xs)"
| "series_le _ _ = Inl TypeError"

text \<open>\<^verbatim>\<open>a & b\<close> on boolean series of one index.\<close>

definition mask_and :: "bool list \<Rightarrow> bool list \<Rightarrow> bool list" where
  "mask_and a b = map2 (\<and>) a b"

text \<open>\<^verbatim>\<open>Series.between(left, right)\<close> is \<^verbatim>\<open>(self >= left) & (self <= right)\<close>.\<close>

definition between :: "series \<Rightarrow> scalar \<Rightarrow> scalar \<Rightarrow> error + bool list" where
  "between s left right =
     (case series_ge s left of
        Inl e \<Rightarrow> Inl e
      | Inr lmask \<Rightarrow>
          (case series_le s right of
             Inl e \<Rightarrow> Inl e
           | Inr rmask \<Rightarrow> Inr (mask_and lmask rmask)))"

text \<open>
  \<^verbatim>\<open>Series.isin(values)\<close>: membership of each element in the tuple. It never raises;
  a number equals no string, and NaN is found among the values when NaN is one of them.
\<close>

fun isin :: "series \<Rightarrow> input_value \<Rightarrow> bool list" where
  "isin (Object xs) (Selected vs) = map (\<lambda>x. x \<in> set vs) xs"
| "isin (Numeric xs) (Range a b) = map (\<lambda>x. x = a \<or> x = b) xs"
| "isin (Object xs) (Range a b) = map (\<lambda>x. False) xs"
| "isin (Numeric xs) (Selected vs) = map (\<lambda>x. False) xs"

text \<open>\<^verbatim>\<open>df[mask]\<close>: the rows at which the mask is true, in their order.\<close>

fun select :: "bool list \<Rightarrow> 'a list \<Rightarrow> 'a list" where
  "select [] xs = []"
| "select (b # bs) [] = []"
| "select (b # bs) (x # xs) = (if b then x # select bs xs else select bs xs)"

fun select_series :: "bool list \<Rightarrow> series \<Rightarrow> series" where
  "select_series m (Numeric xs) = Numeric (select m xs)"
| "select_series m (Object xs) = Object (select m xs)"

definition getitem_mask :: "dataframe \<Rightarrow> bool list \<Rightarrow> dataframe" where
  "getitem_mask df m =
     \<lparr>index = select m (index df), cols = map (\<lambda>(n, s). (n, select_series m s)) (cols df)\<rparr>"

text \<open>\<^verbatim>\<open>pd.Series(True, index=df.index)\<close>\<close>

definition all_true :: "dataframe \<Rightarrow> bool list" where
  "all_true df = replicate (length (index df)) True"

text \<open>
  \<^verbatim>\<open>df.dropna()\<close>: the rows without a missing value. Only numeric columns can hold one
  here.
\<close>

fun notna :: "series \<Rightarrow> bool list" where
  "notna (Numeric xs) = map (\<lambda>x. x \<noteq> NaN) xs"
| "notna (Object xs) = map (\<lambda>x. True) xs"

definition dropna :: "dataframe \<Rightarrow> dataframe" where
  "dropna df = getitem_mask df (fold (\<lambda>(n, s) m. mask_and m (notna s)) (cols df) (all_true df))"

section \<open>app-05c-modules.py\<close>

text \<open>The widgets \<^verbatim>\<open>ui.input_slider\<close> and \<^verbatim>\<open>ui.input_checkbox_group\<close> with their arguments.\<close>

datatype component =
    input_slider string string float64 float64 "float64 \<times> float64" real
      \<comment> \<open>id, label, min, max, value, step\<close>
  | input_checkbox_group string string "string list" "string list"
      \<comment> \<open>id, label, choices, selected\<close>

record filter_entry =
  filter_method :: string
  component :: component

type_synonym ui_filters = "string \<Rightarrow> filter_entry option"

text \<open>
  \<^verbatim>\<open>create_ui_filters(df, columns)\<close>: the loop over the columns, with the dictionary
  built so far.
\<close>

fun create_ui_filters_loop :: "dataframe \<Rightarrow> string list \<Rightarrow> ui_filters \<Rightarrow> error + ui_filters" where
  "create_ui_filters_loop df [] ui_filters = Inr ui_filters"
| "create_ui_filters_loop df (col # columns) ui_filters =
     (case getitem df col of
        None \<Rightarrow> Inl KeyError
      | Some (Numeric xs) \<Rightarrow> \<comment> \<open>\<^verbatim>\<open>is_numeric_dtype(df[col])\<close>\<close>
          (let min_val = series_min xs;
               max_val = series_max xs
           in create_ui_filters_loop df columns
                (ui_filters(col \<mapsto>
                   \<lparr>filter_method = ''sliders2_between'',
                    component = input_slider (''filter_'' @ col) (''Range for '' @ col)
                                  min_val max_val (min_val, max_val) 1\<rparr>)))
      | Some (Object xs) \<Rightarrow>
          (let unique = sort (unique xs)
           in create_ui_filters_loop df columns
                (ui_filters(col \<mapsto>
                   \<lparr>filter_method = ''list_isin'',
                    component = input_checkbox_group (''filter_'' @ col) (''Select '' @ col)
                                  unique unique\<rparr>))))"

definition create_ui_filters :: "dataframe \<Rightarrow> string list \<Rightarrow> error + ui_filters" where
  "create_ui_filters df columns = create_ui_filters_loop df columns Map.empty"

text \<open>\<^verbatim>\<open>getattr(input, f"filter_{col}")()\<close>\<close>

definition read_input :: "inputs \<Rightarrow> string \<Rightarrow> error + input_value" where
  "read_input inp col =
     (case inp (''filter_'' @ col) of None \<Rightarrow> Inl SilentException | Some v \<Rightarrow> Inr v)"

text \<open>
  \<^verbatim>\<open>get_filtered_data\<close> of \<^verbatim>\<open>filter_server\<close>: the loop over the columns with the mask
  so far, then \<^verbatim>\<open>df[mask]\<close>.
\<close>

fun get_filtered_data_loop ::
  "inputs \<Rightarrow> ui_filters \<Rightarrow> dataframe \<Rightarrow> string list \<Rightarrow> bool list \<Rightarrow> error + bool list" where
  "get_filtered_data_loop inp ui_filters df [] msk = Inr msk"
| "get_filtered_data_loop inp ui_filters df (col # columns) msk =
     (case ui_filters col of
        None \<Rightarrow> Inl KeyError
      | Some entry \<Rightarrow>
          if filter_method entry = ''sliders2_between'' then
            (case read_input inp col of
               Inl e \<Rightarrow> Inl e
             | Inr v \<Rightarrow>
                 (case unpack2 v of
                    Inl e \<Rightarrow> Inl e
                  | Inr (min_val, max_val) \<Rightarrow>
                      (case getitem df col of
                         None \<Rightarrow> Inl KeyError
                       | Some s \<Rightarrow>
                           (case between s min_val max_val of
                              Inl e \<Rightarrow> Inl e
                            | Inr b \<Rightarrow>
                                get_filtered_data_loop inp ui_filters df columns
                                  (mask_and msk b)))))
          else if filter_method entry = ''list_isin'' then
            (case read_input inp col of
               Inl e \<Rightarrow> Inl e
             | Inr selected_categories \<Rightarrow>
                 (case getitem df col of
                    None \<Rightarrow> Inl KeyError
                  | Some s \<Rightarrow>
                      get_filtered_data_loop inp ui_filters df columns
                        (mask_and msk (isin s selected_categories))))
          else Inl ValueError)"

definition get_filtered_data ::
  "inputs \<Rightarrow> ui_filters \<Rightarrow> dataframe \<Rightarrow> string list \<Rightarrow> error + dataframe" where
  "get_filtered_data inp ui_filters df columns =
     (case get_filtered_data_loop inp ui_filters df columns (all_true df) of
        Inl e \<Rightarrow> Inl e
      | Inr msk \<Rightarrow> Inr (getitem_mask df msk))"

section \<open>app-01.py\<close>

text \<open>
  \<^verbatim>\<open>get_filtered_data\<close> of app-01.py works on the global frame \<^verbatim>\<open>penguins\<close>, walks
  \<^verbatim>\<open>penguins.columns\<close> and chooses the filter by the column's dtype. The mask is
  \<^verbatim>\<open>mask & (penguins[col] >= min_val) & (penguins[col] <= max_val)\<close>, evaluated from the
  left.
\<close>

fun get_filtered_data_app01_loop ::
  "inputs \<Rightarrow> dataframe \<Rightarrow> string list \<Rightarrow> bool list \<Rightarrow> error + bool list" where
  "get_filtered_data_app01_loop inp penguins [] msk = Inr msk"
| "get_filtered_data_app01_loop inp penguins (col # columns) msk =
     (case getitem penguins col of
        None \<Rightarrow> Inl KeyError
      | Some s \<Rightarrow>
          if is_numeric_dtype s then
            (case read_input inp col of
               Inl e \<Rightarrow> Inl e
             | Inr v \<Rightarrow>
                 (case unpack2 v of
                    Inl e \<Rightarrow> Inl e
                  | Inr (min_val, max_val) \<Rightarrow>
                      (case series_ge s min_val of
                         Inl e \<Rightarrow> Inl e
                       | Inr lower \<Rightarrow>
                           (case series_le s max_val of
                              Inl e \<Rightarrow> Inl e
                            | Inr upper \<Rightarrow>
                                get_filtered_data_app01_loop inp penguins columns
                                  (mask_and (mask_and msk lower) upper)))))
          else
            (case read_input inp col of
               Inl e \<Rightarrow> Inl e
             | Inr selected_categories \<Rightarrow>
                 get_filtered_data_app01_loop inp penguins columns
                   (mask_and msk (isin s selected_categories))))"

definition get_filtered_data_app01 :: "inputs \<Rightarrow> dataframe \<Rightarrow> error + dataframe" where
  "get_filtered_data_app01 inp penguins =
     (case get_filtered_data_app01_loop inp penguins (columns_of penguins) (all_true penguins) of
        Inl e \<Rightarrow> Inl e
      | Inr msk \<Rightarrow> Inr (getitem_mask penguins msk))"

section \<open>Rows, initial filter state\<close>

text \<open>
  The rows of a frame, each with its label: what "a row-subset in the original order"
  is stated on.
\<close>

datatype cell = NumCell float64 | StrCell string

fun series_cells :: "series \<Rightarrow> cell list" where
  "series_cells (Numeric xs) = map NumCell xs"
| "series_cells (Object xs) = map StrCell xs"

fun row_cells :: "series list \<Rightarrow> nat \<Rightarrow> cell list list" where
  "row_cells [] n = replicate n []"
| "row_cells (s # ss) n = map2 (#) (series_cells s) (row_cells ss n)"

definition rows_of :: "dataframe \<Rightarrow> (nat \<times> cell list) list" where
  "rows_of df = zip (index df) (row_cells (map snd (cols df)) (length (index df)))"

text \<open>The id of a widget and the value it starts with.\<close>

fun widget_id :: "component \<Rightarrow> string" where
  "widget_id (input_slider i label mn mx v step) = i"
| "widget_id (input_checkbox_group i label choices selected) = i"

fun widget_value :: "component \<Rightarrow> input_value" where
  "widget_value (input_slider i label mn mx v step) = Range (fst v) (snd v)"
| "widget_value (input_checkbox_group i label choices selected) = Selected selected"

text \<open>
  The inputs hold, for every filtered column, the value its widget was created with:
  the full range of a numeric column, all unique values of a string column.
\<close>

definition at_initial_values :: "inputs \<Rightarrow> ui_filters \<Rightarrow> string list \<Rightarrow> bool" where
  "at_initial_values inp ui_filters columns =
     list_all (\<lambda>col. case ui_filters col of
                        None \<Rightarrow> True
                      | Some entry \<Rightarrow>
                          inp (widget_id (component entry)) = Some (widget_value (component entry)))
       columns"

text \<open>No numeric column holds NaN: what \<^verbatim>\<open>dropna()\<close> establishes.\<close>

definition no_nan :: "dataframe \<Rightarrow> bool" where
  "no_nan df = list_all (\<lambda>(n, s). list_all (\<lambda>b. b) (notna s)) (cols df)"

text \<open>The frames and inputs of the worked examples.\<close>

definition bills :: dataframe where
  "bills = \<lparr>index = [0, 1, 2], cols = [(''bill'', Numeric [F 35, F 55, F 45])]\<rparr>"

definition bill_filters :: ui_filters where
  "bill_filters = [''bill'' \<mapsto>
     \<lparr>filter_method = ''sliders2_between'',
      component = input_slider ''filter_bill'' ''Range for bill'' (F 35) (F 55) (F 35, F 55) 1\<rparr>]"

definition birds :: dataframe where
  "birds = \<lparr>index = [0, 1, 2],
            cols = [(''species'', Object [''Gentoo'', ''Adelie'', ''Gentoo'']),
                    (''bill'', Numeric [F 35, NaN, F 45])]\<rparr>"

definition bird_filters :: ui_filters where
  "bird_filters = [
     ''species'' \<mapsto>
       \<lparr>filter_method = ''list_isin'',
        component = input_checkbox_group ''filter_species'' ''Select species''
                      [''Adelie'', ''Gentoo''] [''Adelie'', ''Gentoo'']\<rparr>,
     ''bill'' \<mapsto>
       \<lparr>filter_method = ''sliders2_between'',
        component = input_slider ''filter_bill'' ''Range for bill'' (F 35) (F 45) (F 35, F 45) 1\<rparr>]"

definition bird_inputs :: inputs where
  "bird_inputs = [''filter_species'' \<mapsto> Selected [''Adelie'', ''Gentoo''],
                  ''filter_bill'' \<mapsto> Range (F 35) (F 45)]"

text \<open>Every entry of a filter dictionary names one of the two filter methods.\<close>

definition known_methods :: "ui_filters \<Rightarrow> bool" where
  "known_methods ui_filters =
     (\<forall>col entry. ui_filters col = Some entry \<longrightarrow>
        filter_method entry = ''sliders2_between'' \<or> filter_method entry = ''list_isin'')"

section \<open>The filter methods of create_ui_filters\<close>

lemma create_ui_filters_loop_methods:
  "create_ui_filters_loop df columns acc = Inr ui_filters \<Longrightarrow> known_methods acc \<Longrightarrow>
   known_methods ui_filters"
proof (induction columns arbitrary: acc)
  case Nil
  then show ?case by simp
next
  case (Cons col columns)
  show ?case
  proof (cases "getitem df col")
    case None
    with Cons.prems show ?thesis by simp
  next
    case (Some s)
    show ?thesis
    proof (cases s)
      case (Numeric xs)
      let ?acc = "acc(col \<mapsto>
                   \<lparr>filter_method = ''sliders2_between'',
                    component = input_slider (''filter_'' @ col) (''Range for '' @ col)
                                  (series_min xs) (series_max xs) (series_min xs, series_max xs) 1\<rparr>)"
      from Cons.prems(1) Some Numeric
      have run: "create_ui_filters_loop df columns ?acc = Inr ui_filters"
        by (simp add: Let_def)
      from Cons.prems(2) have "known_methods ?acc"
        by (simp add: known_methods_def)
      with run show ?thesis by (rule Cons.IH)
    next
      case (Object xs)
      let ?acc = "acc(col \<mapsto>
                   \<lparr>filter_method = ''list_isin'',
                    component = input_checkbox_group (''filter_'' @ col) (''Select '' @ col)
                                  (sort (unique xs)) (sort (unique xs))\<rparr>)"
      from Cons.prems(1) Some Object
      have run: "create_ui_filters_loop df columns ?acc = Inr ui_filters"
        by (simp add: Let_def)
      from Cons.prems(2) have "known_methods ?acc"
        by (simp add: known_methods_def)
      with run show ?thesis by (rule Cons.IH)
    qed
  qed
qed

lemma read_input_not_ValueError: "read_input inp col \<noteq> Inl ValueError"
  by (simp add: read_input_def split: option.split)

lemma unpack2_not_ValueError: "unpack2 v \<noteq> Inl ValueError"
  by (cases v rule: unpack2.cases) simp_all

lemma series_ge_error: "series_ge s v = Inl e \<Longrightarrow> e = TypeError"
  by (cases "(s, v)" rule: series_ge.cases) simp_all

lemma series_le_error: "series_le s v = Inl e \<Longrightarrow> e = TypeError"
  by (cases "(s, v)" rule: series_le.cases) simp_all

lemma between_not_ValueError: "between s a b \<noteq> Inl ValueError"
  by (auto simp: between_def split: sum.splits dest: series_ge_error series_le_error)

lemma get_filtered_data_loop_not_ValueError:
  "known_methods ui_filters \<Longrightarrow>
   get_filtered_data_loop inp ui_filters df columns msk \<noteq> Inl ValueError"
proof (induction columns arbitrary: msk)
  case Nil
  show ?case by simp
next
  case (Cons col columns)
  show ?case
  proof (cases "ui_filters col")
    case None
    then show ?thesis by simp
  next
    case (Some entry)
    with Cons.prems
    have m: "filter_method entry = ''sliders2_between'' \<or> filter_method entry = ''list_isin''"
      by (simp add: known_methods_def)
    show ?thesis
      using Some m Cons.IH [OF Cons.prems]
        read_input_not_ValueError [of inp col]
        unpack2_not_ValueError between_not_ValueError
      by (auto split: sum.splits option.splits prod.splits)
  qed
qed

lemma sort_unique_species:
  "sort (unique [''Gentoo'', ''Adelie'', ''Gentoo'']) = [''Adelie'', ''Gentoo'']"
  by code_simp

lemma create_ui_filters_birds:
  "create_ui_filters birds [''species'', ''bill''] = Inr bird_filters"
  by (simp add: create_ui_filters_def birds_def bird_filters_def getitem_def
      series_min_def series_max_def sort_unique_species Let_def)

text \<open>
  C9. Whatever the dataframe and the column list, every entry of the dictionary that
  \<^verbatim>\<open>create_ui_filters\<close> returns has the filter method \<^verbatim>\<open>sliders2_between\<close> or
  \<^verbatim>\<open>list_isin\<close>; so \<^verbatim>\<open>get_filtered_data\<close>, given that dictionary, the same frame and the
  same columns, never reaches its \<^verbatim>\<open>raise ValueError\<close>, whatever the inputs hold.
\<close>

theorem create_ui_filters_known_methods:
  assumes "create_ui_filters df columns = Inr ui_filters"
  shows "(\<forall>col entry. ui_filters col = Some entry \<longrightarrow>
            filter_method entry = ''sliders2_between'' \<or> filter_method entry = ''list_isin'')
         \<and> (\<forall>inp. get_filtered_data inp ui_filters df columns \<noteq> Inl ValueError)"
proof -
  have "known_methods Map.empty"
    by (simp add: known_methods_def)
  with assms have k: "known_methods ui_filters"
    unfolding create_ui_filters_def by (rule create_ui_filters_loop_methods)
  have "get_filtered_data inp ui_filters df columns \<noteq> Inl ValueError" for inp
    using get_filtered_data_loop_not_ValueError [OF k, of inp df columns "all_true df"]
    by (auto simp: get_filtered_data_def split: sum.splits)
  with k show ?thesis
    by (simp add: known_methods_def)
qed

theorem create_ui_filters_known_methods_witness:
  "create_ui_filters birds [''species'', ''bill''] = Inr bird_filters
   \<and> map_option filter_method (bird_filters ''species'') = Some ''list_isin''
   \<and> map_option filter_method (bird_filters ''bill'') = Some ''sliders2_between''
   \<and> (\<forall>inp. get_filtered_data inp bird_filters birds [''species'', ''bill''] \<noteq> Inl ValueError)"
  using create_ui_filters_known_methods [OF create_ui_filters_birds] create_ui_filters_birds
  by (simp add: bird_filters_def)

end
